theory Spec2Isabelle
  imports Main "HOL-Library.Word"
begin

section \<open>The Qt frontend of the BitBoxApp: \<^verbatim>\<open>frontends/qt/main.cpp\<close>\<close>

text \<open>
  The frontend is glue code around Qt: a request interceptor that filters what the
  web view may load, three callbacks handed to the backend with \<^verbatim>\<open>serve\<close>, two handlers
  for the single-instance signals, the \<^verbatim>\<open>loadFinished\<close> handler and the handler of
  \<^verbatim>\<open>aboutToQuit\<close>. Every one of them is a short sequence of reads and writes of the
  file's static variables and of calls into Qt or the backend. The model keeps the static
  variables in a record, returns the calls a handler makes as a list of actions in program
  order, and returns a fault where the C++ would use a pointer to a deleted object.
\<close>

subsection \<open>The request interceptor\<close>

text \<open>
  A \<^verbatim>\<open>QUrl\<close> is observed only through \<^verbatim>\<open>scheme()\<close> and \<^verbatim>\<open>toString()\<close>; both are Qt's,
  so a URL is the pair of what they return.
\<close>

record QUrl =
  scheme :: string
  toString :: string

record QWebEngineUrlRequestInfo =
  requestUrl :: QUrl
  firstPartyUrl :: QUrl

text \<open>What \<^verbatim>\<open>interceptRequest\<close> does to the outside, in program order.\<close>

datatype intercept_action =
    SystemOpen string   \<comment> \<open>\<^verbatim>\<open>systemOpen(url)\<close>: the backend opens the URL in the default browser\<close>
  | InfoBlock bool      \<comment> \<open>\<^verbatim>\<open>info.block(b)\<close>\<close>
  | CerrLine string     \<comment> \<open>one line written to \<^verbatim>\<open>std::cerr\<close>\<close>

text \<open>
  \<^verbatim>\<open>currentUrl.contains(QRegularExpression("^qrc:/buy/.*$"))\<close>. The pattern is anchored at the
  start, so the string matches iff it begins with \<^verbatim>\<open>qrc:/buy/\<close> and the rest is matched by
  \<^verbatim>\<open>.*$\<close>: the dot does not match a line feed, and \<^verbatim>\<open>$\<close> matches at the very end or just
  before a line feed that is the last character.
\<close>

definition onBuyPage :: "string \<Rightarrow> bool" where
  "onBuyPage currentUrl =
     (take 9 currentUrl = ''qrc:/buy/'' \<and>
      CHR 0x0A \<notin> set (butlast (drop 9 currentUrl)))"

text \<open>
  \<^verbatim>\<open>RequestInterceptor::interceptRequest\<close>. The first argument says whether the build
  defines \<^verbatim>\<open>QT_BITBOX_ALLOW_EXTERNAL_URLS\<close> (it is undefined by default); the second is
  \<^verbatim>\<open>mainPage->requestedUrl().toString()\<close>.
\<close>

definition interceptRequest ::
    "bool \<Rightarrow> string \<Rightarrow> QWebEngineUrlRequestInfo \<Rightarrow> intercept_action list" where
  "interceptRequest allow_external_urls currentUrl info =
     (if allow_external_urls then []
      else if scheme (requestUrl info) = ''qrc'' \<or> scheme (requestUrl info) = ''blob'' then []
      else if onBuyPage currentUrl then
        (if toString (firstPartyUrl info) = toString (requestUrl info)
         then [SystemOpen (toString (requestUrl info)), InfoBlock True]
         else [])
      else [CerrLine (''Blocked: '' @ toString (requestUrl info)), InfoBlock True])"

text \<open>
  The specification speaks of a function \<open>decide\<close> with three outcomes. The C++ function
  returns nothing: a request goes through unless \<^verbatim>\<open>info.block(true)\<close> was called. The
  outcome is read off the actions.
\<close>

datatype decision = Allow | Block | BlockAndOpenExternally

fun is_SystemOpen :: "intercept_action \<Rightarrow> bool" where
  "is_SystemOpen (SystemOpen u) = True"
| "is_SystemOpen (InfoBlock b) = False"
| "is_SystemOpen (CerrLine l) = False"

fun is_CerrLine :: "intercept_action \<Rightarrow> bool" where
  "is_CerrLine (CerrLine l) = True"
| "is_CerrLine (SystemOpen u) = False"
| "is_CerrLine (InfoBlock b) = False"

definition decide :: "bool \<Rightarrow> string \<Rightarrow> QWebEngineUrlRequestInfo \<Rightarrow> decision" where
  "decide allow_external_urls currentUrl info =
     (let acts = interceptRequest allow_external_urls currentUrl info in
      if InfoBlock True \<in> set acts
      then (if list_ex is_SystemOpen acts then BlockAndOpenExternally else Block)
      else Allow)"

text \<open>The two schemes the first rule lets through.\<close>

definition local_scheme :: "QWebEngineUrlRequestInfo \<Rightarrow> bool" where
  "local_scheme info =
     (scheme (requestUrl info) = ''qrc'' \<or> scheme (requestUrl info) = ''blob'')"

subsection \<open>Sample requests\<close>

definition buy_page_url :: string where
  "buy_page_url = ''qrc:/buy/moonpay''"

definition index_page_url :: string where
  "index_page_url = ''qrc:/index.html''"

definition asset_request :: QWebEngineUrlRequestInfo where
  "asset_request =
     \<lparr>requestUrl = \<lparr>scheme = ''qrc'', toString = ''qrc:/buy/moonpay''\<rparr>,
      firstPartyUrl = \<lparr>scheme = ''qrc'', toString = ''qrc:/buy/moonpay''\<rparr>\<rparr>"

definition link_request :: QWebEngineUrlRequestInfo where
  "link_request =
     \<lparr>requestUrl = \<lparr>scheme = ''https'', toString = ''https://example.com/terms''\<rparr>,
      firstPartyUrl = \<lparr>scheme = ''https'', toString = ''https://example.com/terms''\<rparr>\<rparr>"

definition script_request :: QWebEngineUrlRequestInfo where
  "script_request =
     \<lparr>requestUrl = \<lparr>scheme = ''https'', toString = ''https://example.com/widget.js''\<rparr>,
      firstPartyUrl = \<lparr>scheme = ''qrc'', toString = ''qrc:/index.html''\<rparr>\<rparr>"

subsection \<open>The static variables\<close>

text \<open>
  \<^verbatim>\<open>main.cpp\<close> keeps its objects in static pointer variables. What the code can tell about
  such a variable is whether it is null; what decides whether using it is defined is
  whether the object it points to still exists. A pointer variable is therefore null, or
  points to a living object, or points to an object that has been deleted.
\<close>

datatype ptr = nullptr | Valid | Dangling

record app_state =
  pageLoaded :: bool   \<comment> \<open>\<^verbatim>\<open>static bool pageLoaded\<close>\<close>
  webClass :: ptr      \<comment> \<open>\<^verbatim>\<open>static WebClass* webClass\<close>, guarded by \<^verbatim>\<open>webClassMutex\<close>\<close>
  view :: ptr          \<comment> \<open>\<^verbatim>\<open>static QWebEngineView* view\<close>\<close>
  trayIcon :: ptr      \<comment> \<open>\<^verbatim>\<open>static QSystemTrayIcon* trayIcon\<close>\<close>

datatype fault = UseAfterFree | NullDereference | DoubleFree

type_synonym c_int = "32 word"

datatype connection_type =
  AutoConnection | DirectConnection | QueuedConnection | BlockingQueuedConnection

text \<open>The statements of a handler that act on something outside it, in program order.\<close>

datatype action =
    MutexLock                 \<comment> \<open>\<^verbatim>\<open>webClassMutex.lock()\<close>\<close>
  | MutexUnlock               \<comment> \<open>\<^verbatim>\<open>webClassMutex.unlock()\<close>\<close>
  | PushNotify string         \<comment> \<open>\<^verbatim>\<open>webClass->pushNotify(QString(msg))\<close>\<close>
  | GotResponse c_int string  \<comment> \<open>\<^verbatim>\<open>webClass->gotResponse(queryID, QString(msg))\<close>\<close>
  | InvokeMethod string connection_type "string list"
      \<comment> \<open>\<^verbatim>\<open>QMetaObject::invokeMethod(trayIcon, member, type, args...)\<close>\<close>
  | QDebug "string list"      \<comment> \<open>the items streamed into \<^verbatim>\<open>qDebug()\<close>\<close>
  | ViewRaise                 \<comment> \<open>\<^verbatim>\<open>view->raise()\<close>\<close>
  | DeregisterObject          \<comment> \<open>\<^verbatim>\<open>channel.deregisterObject(webClass)\<close>\<close>
  | DeleteWebClass            \<comment> \<open>\<^verbatim>\<open>delete webClass\<close>\<close>
  | ClearWebClass             \<comment> \<open>\<^verbatim>\<open>webClass = nullptr\<close>\<close>
  | DeleteView                \<comment> \<open>\<^verbatim>\<open>delete view\<close>\<close>
  | ClearView                 \<comment> \<open>\<^verbatim>\<open>view = nullptr\<close>\<close>
  | ThreadQuit                \<comment> \<open>\<^verbatim>\<open>workerThread.quit()\<close>\<close>
  | ThreadWait                \<comment> \<open>\<^verbatim>\<open>workerThread.wait()\<close>\<close>

text \<open>A handler either faults or returns, having made some calls and left a state.\<close>

type_synonym outcome = "fault + action list \<times> app_state"

definition performed :: "outcome \<Rightarrow> action list" where
  "performed r = (case r of Inl f \<Rightarrow> [] | Inr (acts, s) \<Rightarrow> acts)"

definition APPNAME :: string where
  "APPNAME = ''BitBoxApp''"

subsection \<open>The callbacks registered with \<^verbatim>\<open>serve\<close>\<close>

definition pushNotificationsCallback :: "app_state \<Rightarrow> string \<Rightarrow> outcome" where
  "pushNotificationsCallback s msg =
     (if \<not> pageLoaded s then Inr ([], s)
      else case webClass s of
          nullptr \<Rightarrow> Inr ([MutexLock, MutexUnlock], s)
        | Valid \<Rightarrow> Inr ([MutexLock, PushNotify msg, MutexUnlock], s)
        | Dangling \<Rightarrow> Inl UseAfterFree)"

definition responseCallback :: "app_state \<Rightarrow> c_int \<Rightarrow> string \<Rightarrow> outcome" where
  "responseCallback s queryID msg =
     (if \<not> pageLoaded s then Inr ([], s)
      else case webClass s of
          nullptr \<Rightarrow> Inr ([MutexLock, MutexUnlock], s)
        | Valid \<Rightarrow> Inr ([MutexLock, GotResponse queryID msg, MutexUnlock], s)
        | Dangling \<Rightarrow> Inl UseAfterFree)"

definition notifyUserCallback :: "app_state \<Rightarrow> string \<Rightarrow> outcome" where
  "notifyUserCallback s msg =
     (case trayIcon s of
          nullptr \<Rightarrow> Inr ([], s)
        | Valid \<Rightarrow> Inr ([InvokeMethod ''showMessage'' QueuedConnection [APPNAME, msg]], s)
        | Dangling \<Rightarrow> Inl UseAfterFree)"

subsection \<open>The signal handlers connected in \<^verbatim>\<open>main\<close>\<close>

text \<open>\<^verbatim>\<open>[](bool ok){ pageLoaded = ok; }\<close>, connected to \<^verbatim>\<open>QWebEngineView::loadFinished\<close>.\<close>

definition loadFinished :: "app_state \<Rightarrow> bool \<Rightarrow> outcome" where
  "loadFinished s ok = Inr ([], s\<lparr>pageLoaded := ok\<rparr>)"

text \<open>
  The handler of \<^verbatim>\<open>SingleApplication::receivedMessage\<close>. The message is a byte array read
  as UTF-8; the model keeps it as the string it encodes.
\<close>

definition receivedMessage :: "app_state \<Rightarrow> c_int \<Rightarrow> string \<Rightarrow> outcome" where
  "receivedMessage s instanceId message =
     Inr ([QDebug [''Received args from secondary instance:'', message]], s)"

text \<open>The handler of \<^verbatim>\<open>SingleApplication::instanceStarted\<close>: \<^verbatim>\<open>view->raise()\<close>.\<close>

definition instanceStarted :: "app_state \<Rightarrow> outcome" where
  "instanceStarted s =
     (case view s of
          nullptr \<Rightarrow> Inl NullDereference
        | Valid \<Rightarrow> Inr ([ViewRaise], s)
        | Dangling \<Rightarrow> Inl UseAfterFree)"

text \<open>
  \<^verbatim>\<open>delete\<close> on a null pointer does nothing. The tray icon is created with \<^verbatim>\<open>view\<close> as its
  parent (\<^verbatim>\<open>new QSystemTrayIcon(QIcon(":/trayicon.png"), view)\<close>), and a \<^verbatim>\<open>QObject\<close> deletes
  its children when it is deleted, so \<^verbatim>\<open>delete view\<close> deletes the tray icon too; the
  variable \<^verbatim>\<open>trayIcon\<close> keeps its value.
\<close>

definition child_deleted :: "ptr \<Rightarrow> ptr" where
  "child_deleted p = (case p of nullptr \<Rightarrow> nullptr | Valid \<Rightarrow> Dangling | Dangling \<Rightarrow> Dangling)"

definition delete_webClass :: "app_state \<Rightarrow> fault + app_state" where
  "delete_webClass s =
     (case webClass s of
          nullptr \<Rightarrow> Inr s
        | Valid \<Rightarrow> Inr (s\<lparr>webClass := Dangling\<rparr>)
        | Dangling \<Rightarrow> Inl DoubleFree)"

definition delete_view :: "app_state \<Rightarrow> fault + app_state" where
  "delete_view s =
     (case view s of
          nullptr \<Rightarrow> Inr s
        | Valid \<Rightarrow> Inr (s\<lparr>view := Dangling, trayIcon := child_deleted (trayIcon s)\<rparr>)
        | Dangling \<Rightarrow> Inl DoubleFree)"

text \<open>The handler of \<^verbatim>\<open>QApplication::aboutToQuit\<close>.\<close>

definition aboutToQuit :: "app_state \<Rightarrow> outcome" where
  "aboutToQuit s =
     (case delete_webClass s of
          Inl f \<Rightarrow> Inl f
        | Inr s1 \<Rightarrow>
            (case delete_view (s1\<lparr>webClass := nullptr\<rparr>) of
                 Inl f \<Rightarrow> Inl f
               | Inr s2 \<Rightarrow>
                   Inr ([MutexLock, DeregisterObject, DeleteWebClass, ClearWebClass,
                         DeleteView, ClearView, MutexUnlock, ThreadQuit, ThreadWait],
                        s2\<lparr>view := nullptr\<rparr>)))"

subsection \<open>The course of \<^verbatim>\<open>main\<close> in the primary instance\<close>

text \<open>The static variables are zero-initialised; \<^verbatim>\<open>pageLoaded\<close> is initialised to false.\<close>

definition static_initialization :: app_state where
  "static_initialization =
     \<lparr>pageLoaded = False, webClass = nullptr, view = nullptr, trayIcon = nullptr\<rparr>"

text \<open>
  Up to the call of \<^verbatim>\<open>serve\<close>, \<^verbatim>\<open>main\<close> creates the view, sets \<^verbatim>\<open>pageLoaded\<close> to false and
  creates the \<^verbatim>\<open>WebClass\<close> object. From the call of \<^verbatim>\<open>serve\<close> on the backend may call the
  three callbacks.
\<close>

definition main_until_serve :: "app_state \<Rightarrow> app_state" where
  "main_until_serve s = s\<lparr>view := Valid, pageLoaded := False, webClass := Valid\<rparr>"

definition state_at_serve :: app_state where
  "state_at_serve = main_until_serve static_initialization"

text \<open>After the call of \<^verbatim>\<open>serve\<close> and the start of the page load, the tray icon is created.\<close>

definition main_create_trayIcon :: "app_state \<Rightarrow> app_state" where
  "main_create_trayIcon s = s\<lparr>trayIcon := Valid\<rparr>"

definition state_running :: app_state where
  "state_running = main_create_trayIcon state_at_serve"

subsection \<open>Sequences of events\<close>

text \<open>
  What can happen once the callbacks are registered: the backend calls one of them, Qt
  emits one of the connected signals, or \<^verbatim>\<open>main\<close> reaches the creation of the tray icon.
  The accesses to \<^verbatim>\<open>webClass\<close> are serialised by the mutex, so a run is a sequence.
\<close>

datatype event =
    OnPushNotification string
  | OnResponse c_int string
  | OnNotifyUser string
  | LoadFinished bool
  | ReceivedMessage c_int string
  | InstanceStarted
  | TrayIconCreated
  | AboutToQuit

fun dispatch :: "app_state \<Rightarrow> event \<Rightarrow> outcome" where
  "dispatch s (OnPushNotification msg) = pushNotificationsCallback s msg"
| "dispatch s (OnResponse queryID msg) = responseCallback s queryID msg"
| "dispatch s (OnNotifyUser msg) = notifyUserCallback s msg"
| "dispatch s (LoadFinished ok) = loadFinished s ok"
| "dispatch s (ReceivedMessage instanceId message) = receivedMessage s instanceId message"
| "dispatch s InstanceStarted = instanceStarted s"
| "dispatch s TrayIconCreated = Inr ([], main_create_trayIcon s)"
| "dispatch s AboutToQuit = aboutToQuit s"

fun run :: "app_state \<Rightarrow> event list \<Rightarrow> outcome" where
  "run s [] = Inr ([], s)"
| "run s (e # es) =
     (case dispatch s e of
          Inl f \<Rightarrow> Inl f
        | Inr (a, s') \<Rightarrow>
            (case run s' es of
                 Inl f \<Rightarrow> Inl f
               | Inr (b, s'') \<Rightarrow> Inr (a @ b, s'')))"

subsection \<open>Notions the claims are stated in\<close>

text \<open>A call that reaches the UI: one of the two slots of the \<^verbatim>\<open>WebClass\<close> object.\<close>

fun is_ui_callback :: "action \<Rightarrow> bool" where
  "is_ui_callback (PushNotify msg) = True"
| "is_ui_callback (GotResponse queryID msg) = True"
| "is_ui_callback a = False"

text \<open>A notification handed to the tray icon.\<close>

fun is_showMessage :: "action \<Rightarrow> bool" where
  "is_showMessage (InvokeMethod member c args) = (member = ''showMessage'')"
| "is_showMessage a = False"

text \<open>
  The value of \<^verbatim>\<open>pageLoaded\<close> that a sequence of events leaves, told from the events
  alone: the flag of the last \<^verbatim>\<open>loadFinished\<close> signal, or the value before if there is none.
\<close>

fun last_load :: "bool \<Rightarrow> event list \<Rightarrow> bool" where
  "last_load b [] = b"
| "last_load b (LoadFinished ok # es) = last_load ok es"
| "last_load b (e # es) = last_load b es"

text \<open>
  The five steps of a shutdown as the specification names them, the order in which it
  lists them, and the step a statement of the \<^verbatim>\<open>aboutToQuit\<close> handler carries out.
\<close>

datatype teardown_step =
  DeregisterChannel | ClearLiveness | SignalWorker | ReleaseSurface | JoinWorker

definition spec_teardown_order :: "teardown_step list" where
  "spec_teardown_order =
     [DeregisterChannel, ClearLiveness, SignalWorker, ReleaseSurface, JoinWorker]"

fun step_of :: "action \<Rightarrow> teardown_step option" where
  "step_of DeregisterObject = Some DeregisterChannel"
| "step_of ClearWebClass = Some ClearLiveness"
| "step_of ThreadQuit = Some SignalWorker"
| "step_of DeleteView = Some ReleaseSurface"
| "step_of ThreadWait = Some JoinWorker"
| "step_of a = None"

definition teardown_steps :: "action list \<Rightarrow> teardown_step list" where
  "teardown_steps acts = List.map_filter step_of acts"

text \<open>
  The state a sequence of events leaves. A sequence that faults leaves no state; the
  function then returns the state it started from.
\<close>

definition state_after :: "app_state \<Rightarrow> event list \<Rightarrow> app_state" where
  "state_after s evs = (case run s evs of Inl f \<Rightarrow> s | Inr (acts, s') \<Rightarrow> s')"

section \<open>The policy filter\<close>

lemma onBuyPage_buy_page_url: "onBuyPage buy_page_url"
  by (simp add: onBuyPage_def buy_page_url_def)

lemma not_onBuyPage_index_page_url: "\<not> onBuyPage index_page_url"
  by (simp add: onBuyPage_def index_page_url_def)

text \<open>
  C3. A request whose scheme is \<^verbatim>\<open>qrc\<close> or \<^verbatim>\<open>blob\<close> is let through by the first rule:
  the interceptor does nothing at all (it does not block, writes no log line and opens
  nothing), whatever the page currently shown is, whether or not the requested URL equals
  the first-party URL, and in either build.
\<close>

theorem local_scheme_allowed:
  "local_scheme info \<Longrightarrow>
     interceptRequest allow_external_urls currentUrl info = [] \<and>
     decide allow_external_urls currentUrl info = Allow"
  by (simp add: interceptRequest_def decide_def local_scheme_def)

theorem local_scheme_allowed_witness:
  "local_scheme asset_request \<and>
   onBuyPage buy_page_url \<and>
   toString (firstPartyUrl asset_request) = toString (requestUrl asset_request) \<and>
   interceptRequest False buy_page_url asset_request = [] \<and>
   decide False buy_page_url asset_request = Allow"
proof -
  have h: "local_scheme asset_request"
    by (simp add: local_scheme_def asset_request_def)
  have "toString (firstPartyUrl asset_request) = toString (requestUrl asset_request)"
    by (simp add: asset_request_def)
  with h onBuyPage_buy_page_url local_scheme_allowed [OF h, of False buy_page_url]
  show ?thesis by simp
qed

text \<open>
  C4. In the enforcing build (the one without \<^verbatim>\<open>QT_BITBOX_ALLOW_EXTERNAL_URLS\<close>), a request
  with a scheme other than \<^verbatim>\<open>qrc\<close> and \<^verbatim>\<open>blob\<close>, made while the main page is a buy page
  and with the requested URL equal to the first-party URL, is handed to \<^verbatim>\<open>systemOpen\<close>
  once and then blocked: the decision is BlockAndOpenExternally. In every build and for
  every request, \<^verbatim>\<open>systemOpen\<close> is called once in exactly this case and not at all in
  any other. The interceptor is a function of the request and of the URL of the main
  page: it reads nothing else.
\<close>

theorem trusted_zone_link_opened_externally:
  "(\<not> local_scheme info \<longrightarrow> onBuyPage currentUrl \<longrightarrow>
      toString (firstPartyUrl info) = toString (requestUrl info) \<longrightarrow>
        interceptRequest False currentUrl info =
          [SystemOpen (toString (requestUrl info)), InfoBlock True] \<and>
        decide False currentUrl info = BlockAndOpenExternally) \<and>
   filter is_SystemOpen (interceptRequest allow_external_urls currentUrl info) =
     (if \<not> allow_external_urls \<and> \<not> local_scheme info \<and> onBuyPage currentUrl \<and>
         toString (firstPartyUrl info) = toString (requestUrl info)
      then [SystemOpen (toString (requestUrl info))] else [])"
  by (simp add: interceptRequest_def decide_def local_scheme_def)

theorem trusted_zone_link_opened_externally_witness:
  "\<not> local_scheme link_request \<and> onBuyPage buy_page_url \<and>
   toString (firstPartyUrl link_request) = toString (requestUrl link_request) \<and>
   interceptRequest False buy_page_url link_request =
     [SystemOpen ''https://example.com/terms'', InfoBlock True] \<and>
   decide False buy_page_url link_request = BlockAndOpenExternally \<and>
   filter is_SystemOpen (interceptRequest False buy_page_url script_request) = []"
proof -
  have a: "\<not> local_scheme link_request"
    by (simp add: local_scheme_def link_request_def)
  have b: "toString (firstPartyUrl link_request) = toString (requestUrl link_request)"
    by (simp add: link_request_def)
  have c: "toString (requestUrl link_request) = ''https://example.com/terms''"
    by (simp add: link_request_def)
  have d: "toString (firstPartyUrl script_request) \<noteq> toString (requestUrl script_request)"
    by (simp add: script_request_def)
  from a b c d onBuyPage_buy_page_url
    trusted_zone_link_opened_externally [of link_request buy_page_url False]
    trusted_zone_link_opened_externally [of script_request buy_page_url False]
  show ?thesis by simp
qed

text \<open>
  C5. In the enforcing build, a request with a scheme other than \<^verbatim>\<open>qrc\<close> and \<^verbatim>\<open>blob\<close>,
  made while the main page is not a buy page, is blocked. The interceptor returns (it has
  no failing branch), having written the one line \<^verbatim>\<open>Blocked: <url>\<close> to the error stream
  and called \<^verbatim>\<open>info.block(true)\<close>, and nothing else: it opens nothing.
\<close>

theorem outside_trusted_zone_blocked:
  "\<not> local_scheme info \<Longrightarrow> \<not> onBuyPage currentUrl \<Longrightarrow>
     interceptRequest False currentUrl info =
       [CerrLine (''Blocked: '' @ toString (requestUrl info)), InfoBlock True] \<and>
     decide False currentUrl info = Block \<and>
     length (filter is_CerrLine (interceptRequest False currentUrl info)) = 1 \<and>
     filter is_SystemOpen (interceptRequest False currentUrl info) = []"
  by (simp add: interceptRequest_def decide_def local_scheme_def)

theorem outside_trusted_zone_blocked_witness:
  "\<not> local_scheme script_request \<and> \<not> onBuyPage index_page_url \<and>
   interceptRequest False index_page_url script_request =
     [CerrLine ''Blocked: https://example.com/widget.js'', InfoBlock True] \<and>
   decide False index_page_url script_request = Block"
proof -
  have a: "\<not> local_scheme script_request"
    by (simp add: local_scheme_def script_request_def)
  have c: "toString (requestUrl script_request) = ''https://example.com/widget.js''"
    by (simp add: script_request_def)
  from a c not_onBuyPage_index_page_url
    outside_trusted_zone_blocked [OF a not_onBuyPage_index_page_url]
  show ?thesis by simp
qed

section \<open>Delivery to the UI\<close>

lemma run_dropped: "dispatch s e = Inr ([], s) \<Longrightarrow> run s (e # es) = run s es"
  by (simp split: sum.splits)

lemma running_facts:
  "pageLoaded state_at_serve = False" "webClass state_at_serve = Valid"
  "view state_at_serve = Valid" "trayIcon state_at_serve = nullptr"
  "pageLoaded state_running = False" "webClass state_running = Valid"
  "view state_running = Valid" "trayIcon state_running = Valid"
  by (simp_all add: state_running_def state_at_serve_def main_create_trayIcon_def
      main_until_serve_def static_initialization_def)

text \<open>
  C1. While \<^verbatim>\<open>pageLoaded\<close> is false, the response callback and the push-notification
  callback return at once: they call nothing and change nothing, and the run that follows
  is the run that would have followed without the call, so the message is not kept for
  later. A call reaches one of the slots of the \<^verbatim>\<open>WebClass\<close> object exactly when
  \<^verbatim>\<open>pageLoaded\<close> is true and \<^verbatim>\<open>webClass\<close> points to the living object.
\<close>

theorem delivery_gated_by_pageLoaded:
  "(\<not> pageLoaded s \<longrightarrow>
      responseCallback s queryID msg = Inr ([], s) \<and>
      pushNotificationsCallback s msg = Inr ([], s) \<and>
      run s (OnResponse queryID msg # evs) = run s evs \<and>
      run s (OnPushNotification msg # evs) = run s evs) \<and>
   (list_ex is_ui_callback (performed (responseCallback s queryID msg)) \<longleftrightarrow>
      pageLoaded s \<and> webClass s = Valid) \<and>
   (list_ex is_ui_callback (performed (pushNotificationsCallback s msg)) \<longleftrightarrow>
      pageLoaded s \<and> webClass s = Valid)"
proof -
  have drop_r: "responseCallback s queryID msg = Inr ([], s)" if "\<not> pageLoaded s"
    using that by (simp add: responseCallback_def)
  have drop_p: "pushNotificationsCallback s msg = Inr ([], s)" if "\<not> pageLoaded s"
    using that by (simp add: pushNotificationsCallback_def)
  have run_r: "run s (OnResponse queryID msg # evs) = run s evs" if "\<not> pageLoaded s"
    using drop_r [OF that] by (intro run_dropped) simp
  have run_p: "run s (OnPushNotification msg # evs) = run s evs" if "\<not> pageLoaded s"
    using drop_p [OF that] by (intro run_dropped) simp
  have only_r: "list_ex is_ui_callback (performed (responseCallback s queryID msg)) \<longleftrightarrow>
      pageLoaded s \<and> webClass s = Valid"
    by (cases "webClass s") (simp_all add: responseCallback_def performed_def)
  have only_p: "list_ex is_ui_callback (performed (pushNotificationsCallback s msg)) \<longleftrightarrow>
      pageLoaded s \<and> webClass s = Valid"
    by (cases "webClass s") (simp_all add: pushNotificationsCallback_def performed_def)
  from drop_r drop_p run_r run_p only_r only_p show ?thesis by blast
qed

theorem delivery_gated_by_pageLoaded_witness:
  "\<not> pageLoaded state_at_serve \<and>
   responseCallback state_at_serve 7 ''{}'' = Inr ([], state_at_serve) \<and>
   pushNotificationsCallback state_at_serve ''{}'' = Inr ([], state_at_serve) \<and>
   run state_at_serve [OnResponse 7 ''{}'', LoadFinished True] =
     run state_at_serve [LoadFinished True] \<and>
   \<not> list_ex is_ui_callback (performed (responseCallback state_at_serve 7 ''{}''))"
  using delivery_gated_by_pageLoaded [of state_at_serve 7 "''{}''" "[LoadFinished True]"]
  by (simp add: running_facts performed_def del: run.simps)

section \<open>Notifications for the user\<close>

text \<open>
  C10. When the backend's callbacks are registered the tray icon does not exist yet:
  \<^verbatim>\<open>trayIcon\<close> is null at the call of \<^verbatim>\<open>serve\<close>. As long as it is null, the notify-user
  callback returns at once: it calls nothing and changes nothing, and the run that follows
  is the run that would have followed without the call, so the notification is dropped
  and not kept for later.
\<close>

theorem notifyUser_before_trayIcon_dropped:
  "trayIcon state_at_serve = nullptr \<and>
   (trayIcon s = nullptr \<longrightarrow>
      notifyUserCallback s msg = Inr ([], s) \<and>
      run s (OnNotifyUser msg # evs) = run s evs)"
proof -
  have d: "notifyUserCallback s msg = Inr ([], s)" if "trayIcon s = nullptr"
    using that by (simp add: notifyUserCallback_def)
  have r: "run s (OnNotifyUser msg # evs) = run s evs" if "trayIcon s = nullptr"
    using d [OF that] by (intro run_dropped) simp
  from d r running_facts(4) show ?thesis by blast
qed

theorem notifyUser_before_trayIcon_dropped_witness:
  "trayIcon state_at_serve = nullptr \<and>
   notifyUserCallback state_at_serve ''device connected'' = Inr ([], state_at_serve) \<and>
   run state_at_serve [OnNotifyUser ''device connected'', TrayIconCreated] =
     run state_at_serve [TrayIconCreated] \<and>
   run state_at_serve [TrayIconCreated] = Inr ([], state_running)"
proof -
  have "run state_at_serve [TrayIconCreated] = Inr ([], state_running)"
    by (simp add: state_running_def)
  with notifyUser_before_trayIcon_dropped
         [of state_at_serve "''device connected''" "[TrayIconCreated]"]
  show ?thesis by (simp del: run.simps)
qed

text \<open>
  C7, as the claim states it, fails: a notify-user call made at the time of \<^verbatim>\<open>serve\<close>,
  when the tray icon does not exist yet, hands nothing to the tray icon.
\<close>

theorem notifyUser_without_trayIcon_not_delivered:
  "\<not> list_ex is_showMessage
       (performed (notifyUserCallback state_at_serve ''device connected''))"
  by (simp add: notifyUserCallback_def running_facts performed_def)

text \<open>
  C7, amended. Whenever the tray icon exists, the notify-user callback posts one
  invocation of the tray icon's \<^verbatim>\<open>showMessage\<close> with the application's name and the
  payload, through a queued connection (the call is put into the event queue of the
  thread that owns the tray icon and the callback returns), and this whether
  \<^verbatim>\<open>pageLoaded\<close> is true or false: the flag is not consulted. While \<^verbatim>\<open>trayIcon\<close> is null
  the callback does nothing, again whatever \<^verbatim>\<open>pageLoaded\<close> is. The callback never takes
  the mutex.
\<close>

theorem notifyUser_queued_whatever_pageLoaded:
  "(trayIcon s = Valid \<longrightarrow>
      notifyUserCallback (s\<lparr>pageLoaded := loaded\<rparr>) msg =
        Inr ([InvokeMethod ''showMessage'' QueuedConnection [APPNAME, msg]],
             s\<lparr>pageLoaded := loaded\<rparr>)) \<and>
   (trayIcon s = nullptr \<longrightarrow>
      notifyUserCallback (s\<lparr>pageLoaded := loaded\<rparr>) msg =
        Inr ([], s\<lparr>pageLoaded := loaded\<rparr>)) \<and>
   MutexLock \<notin> set (performed (notifyUserCallback s msg))"
  by (cases "trayIcon s") (simp_all add: notifyUserCallback_def performed_def)

theorem notifyUser_queued_whatever_pageLoaded_witness:
  "trayIcon state_running = Valid \<and>
   notifyUserCallback (state_running\<lparr>pageLoaded := False\<rparr>) ''device connected'' =
     Inr ([InvokeMethod ''showMessage'' QueuedConnection
             [''BitBoxApp'', ''device connected'']],
          state_running\<lparr>pageLoaded := False\<rparr>) \<and>
   notifyUserCallback (state_running\<lparr>pageLoaded := True\<rparr>) ''device connected'' =
     Inr ([InvokeMethod ''showMessage'' QueuedConnection
             [''BitBoxApp'', ''device connected'']],
          state_running\<lparr>pageLoaded := True\<rparr>) \<and>
   trayIcon state_at_serve = nullptr \<and>
   notifyUserCallback (state_at_serve\<lparr>pageLoaded := True\<rparr>) ''device connected'' =
     Inr ([], state_at_serve\<lparr>pageLoaded := True\<rparr>)"
  using notifyUser_queued_whatever_pageLoaded [of state_running False "''device connected''"]
    notifyUser_queued_whatever_pageLoaded [of state_running True "''device connected''"]
    notifyUser_queued_whatever_pageLoaded [of state_at_serve True "''device connected''"]
  by (simp add: running_facts APPNAME_def)

section \<open>Shutdown\<close>

text \<open>
  No handler leaves \<^verbatim>\<open>webClass\<close> or \<^verbatim>\<open>view\<close> pointing to a deleted object: the only
  statements that delete them are followed by the assignment of null. So the two
  pointers are null or valid in every state that a run from the start of \<^verbatim>\<open>main\<close> reaches.
\<close>

lemma dispatch_bridge_not_dangling:
  "webClass s \<noteq> Dangling \<Longrightarrow> view s \<noteq> Dangling \<Longrightarrow> dispatch s e = Inr (acts, s') \<Longrightarrow>
     webClass s' \<noteq> Dangling \<and> view s' \<noteq> Dangling"
  by (cases e)
     (auto simp: pushNotificationsCallback_def responseCallback_def notifyUserCallback_def
        loadFinished_def receivedMessage_def instanceStarted_def main_create_trayIcon_def
        aboutToQuit_def delete_webClass_def delete_view_def
        split: if_splits ptr.splits sum.splits)

lemma run_bridge_not_dangling:
  "webClass s \<noteq> Dangling \<Longrightarrow> view s \<noteq> Dangling \<Longrightarrow> run s evs = Inr (acts, s') \<Longrightarrow>
     webClass s' \<noteq> Dangling \<and> view s' \<noteq> Dangling"
proof (induction evs arbitrary: s acts)
  case Nil
  then show ?case by simp
next
  case (Cons e es)
  from Cons.prems(3) obtain a s1 b where
    d: "dispatch s e = Inr (a, s1)" and r: "run s1 es = Inr (b, s')"
    by (auto split: sum.splits prod.splits)
  from dispatch_bridge_not_dangling [OF Cons.prems(1,2) d]
  have "webClass s1 \<noteq> Dangling" and "view s1 \<noteq> Dangling" by simp_all
  from Cons.IH [OF this r] show ?case .
qed

text \<open>
  C6, as the claim states it, fails: in the \<^verbatim>\<open>aboutToQuit\<close> handler the view is deleted
  before the worker thread is told to quit, so the five steps are not carried out in the
  order in which the specification lists them.
\<close>

theorem teardown_not_in_spec_order:
  "teardown_steps (performed (aboutToQuit state_running)) \<noteq> spec_teardown_order"
  by (simp add: aboutToQuit_def delete_webClass_def delete_view_def running_facts
      performed_def teardown_steps_def spec_teardown_order_def)

text \<open>
  C6, amended. The \<^verbatim>\<open>aboutToQuit\<close> handler takes the mutex, deregisters the \<^verbatim>\<open>WebClass\<close>
  object from the web channel, deletes it and sets \<^verbatim>\<open>webClass\<close> to null, deletes the view
  and sets \<^verbatim>\<open>view\<close> to null, releases the mutex, tells the worker thread to quit and waits
  for it. In the specification's terms: deregister the channel, clear the liveness flag,
  release the UI surface (these three under the lock), signal the worker, join the worker.
\<close>

theorem teardown_order:
  "webClass s \<noteq> Dangling \<Longrightarrow> view s \<noteq> Dangling \<Longrightarrow>
     performed (aboutToQuit s) =
       [MutexLock, DeregisterObject, DeleteWebClass, ClearWebClass,
        DeleteView, ClearView, MutexUnlock, ThreadQuit, ThreadWait] \<and>
     teardown_steps (performed (aboutToQuit s)) =
       [DeregisterChannel, ClearLiveness, ReleaseSurface, SignalWorker, JoinWorker]"
  by (cases "webClass s"; cases "view s")
     (simp_all add: aboutToQuit_def delete_webClass_def delete_view_def
        performed_def teardown_steps_def)

theorem teardown_order_witness:
  "webClass state_running \<noteq> Dangling \<and> view state_running \<noteq> Dangling \<and>
   teardown_steps (performed (aboutToQuit state_running)) =
     [DeregisterChannel, ClearLiveness, ReleaseSurface, SignalWorker, JoinWorker]"
  using teardown_order [of state_running]
  by (simp add: running_facts teardown_steps_def)

subsection \<open>Callbacks after the shutdown\<close>

text \<open>
  The handler leaves \<^verbatim>\<open>webClass\<close> and \<^verbatim>\<open>view\<close> null. From then on \<^verbatim>\<open>webClass\<close> stays null,
  and no sequence of events reaches a slot of the \<^verbatim>\<open>WebClass\<close> object: the response and
  push-notification callbacks take the mutex, find the pointer null and release the mutex.
\<close>

lemma aboutToQuit_clears:
  "aboutToQuit s = Inr (acts, s') \<Longrightarrow> webClass s' = nullptr \<and> view s' = nullptr"
  by (auto simp: aboutToQuit_def delete_webClass_def delete_view_def
      split: ptr.splits sum.splits)

lemma delivery_after_teardown:
  "webClass s = nullptr \<Longrightarrow>
     responseCallback s queryID msg =
       Inr (if pageLoaded s then [MutexLock, MutexUnlock] else [], s) \<and>
     pushNotificationsCallback s msg =
       Inr (if pageLoaded s then [MutexLock, MutexUnlock] else [], s)"
  by (simp add: responseCallback_def pushNotificationsCallback_def)

lemma dispatch_after_teardown:
  "webClass s = nullptr \<Longrightarrow> dispatch s e = Inr (acts, s') \<Longrightarrow>
     webClass s' = nullptr \<and> \<not> list_ex is_ui_callback acts"
  by (cases e)
     (auto simp: pushNotificationsCallback_def responseCallback_def notifyUserCallback_def
        loadFinished_def receivedMessage_def instanceStarted_def main_create_trayIcon_def
        aboutToQuit_def delete_webClass_def delete_view_def
        split: if_splits ptr.splits sum.splits)

lemma run_after_teardown:
  "webClass s = nullptr \<Longrightarrow> run s evs = Inr (acts, s') \<Longrightarrow>
     webClass s' = nullptr \<and> \<not> list_ex is_ui_callback acts"
proof (induction evs arbitrary: s acts)
  case Nil
  then show ?case by simp
next
  case (Cons e es)
  from Cons.prems(2) obtain a s1 b where
    d: "dispatch s e = Inr (a, s1)" and r: "run s1 es = Inr (b, s')" and ab: "acts = a @ b"
    by (auto split: sum.splits prod.splits)
  from dispatch_after_teardown [OF Cons.prems(1) d]
  have s1: "webClass s1 = nullptr" and a: "\<not> list_ex is_ui_callback a" by simp_all
  from Cons.IH [OF s1 r] a ab show ?case by simp
qed

text \<open>
  C2. The claim asks that after the shutdown a call of any of the three callbacks does
  nothing. For the notify-user callback the code does not achieve this. The handler
  deletes the view, and with it the tray icon, which is a child of the view, but leaves
  \<^verbatim>\<open>trayIcon\<close> pointing to it. A notify-user call that the backend makes after the
  handler has run passes the null check and invokes a method on the deleted tray icon.
\<close>

theorem notifyUser_after_teardown_uses_deleted_trayIcon:
  "aboutToQuit state_running =
     Inr ([MutexLock, DeregisterObject, DeleteWebClass, ClearWebClass,
           DeleteView, ClearView, MutexUnlock, ThreadQuit, ThreadWait],
          state_running\<lparr>webClass := nullptr, view := nullptr, trayIcon := Dangling\<rparr>) \<and>
   notifyUserCallback
     (state_running\<lparr>webClass := nullptr, view := nullptr, trayIcon := Dangling\<rparr>)
     ''device connected'' = Inl UseAfterFree \<and>
   run state_running [AboutToQuit, OnNotifyUser ''device connected''] = Inl UseAfterFree"
  by (simp add: aboutToQuit_def delete_webClass_def delete_view_def child_deleted_def
      notifyUserCallback_def running_facts)

section \<open>The page-loaded flag\<close>

text \<open>
  C8, as the claim states it, fails: the handler of \<^verbatim>\<open>loadFinished\<close> stores the signal's
  flag, so a load that fails after one that succeeded sets \<^verbatim>\<open>pageLoaded\<close> back to false,
  for the same view.
\<close>

theorem pageLoaded_returns_to_false:
  "pageLoaded (state_after state_running [LoadFinished True]) \<and>
   \<not> pageLoaded (state_after state_running [LoadFinished True, LoadFinished False])"
  by (simp add: state_after_def loadFinished_def)

lemma dispatch_pageLoaded:
  "dispatch s e = Inr (acts, s') \<Longrightarrow> pageLoaded s' = last_load (pageLoaded s) [e]"
  by (cases e)
     (auto simp: pushNotificationsCallback_def responseCallback_def notifyUserCallback_def
        loadFinished_def receivedMessage_def instanceStarted_def main_create_trayIcon_def
        aboutToQuit_def delete_webClass_def delete_view_def
        split: if_splits ptr.splits sum.splits)

lemma last_load_Cons: "last_load b (e # es) = last_load (last_load b [e]) es"
  by (cases e) simp_all

text \<open>
  C8, amended. \<^verbatim>\<open>pageLoaded\<close> is false from the start of the program and when the view
  has been created. After any sequence of events it holds the flag of the last
  \<^verbatim>\<open>loadFinished\<close> signal of the sequence, and its old value if the sequence has no such
  signal: it becomes true when a load succeeds and false again when a later load fails,
  and nothing but \<^verbatim>\<open>loadFinished\<close> changes it.
\<close>

theorem pageLoaded_is_last_load_result:
  "pageLoaded static_initialization = False \<and>
   pageLoaded state_at_serve = False \<and>
   (run s evs = Inr (acts, s') \<longrightarrow> pageLoaded s' = last_load (pageLoaded s) evs)"
proof -
  have "run s evs = Inr (acts, s') \<Longrightarrow> pageLoaded s' = last_load (pageLoaded s) evs"
  proof (induction evs arbitrary: s acts)
    case Nil
    then show ?case by simp
  next
    case (Cons e es)
    from Cons.prems obtain a s1 b where
      d: "dispatch s e = Inr (a, s1)" and r: "run s1 es = Inr (b, s')"
      by (auto split: sum.splits prod.splits)
    from Cons.IH [OF r] dispatch_pageLoaded [OF d] show ?case
      by (subst last_load_Cons) simp
  qed
  then show ?thesis
    by (simp add: running_facts static_initialization_def)
qed

theorem pageLoaded_is_last_load_result_witness:
  "run state_at_serve [LoadFinished True, OnResponse 7 ''{}'', LoadFinished False] =
     Inr ([MutexLock, GotResponse 7 ''{}'', MutexUnlock], state_at_serve) \<and>
   pageLoaded state_at_serve =
     last_load (pageLoaded state_at_serve)
       [LoadFinished True, OnResponse 7 ''{}'', LoadFinished False]"
proof -
  have r: "run state_at_serve [LoadFinished True, OnResponse 7 ''{}'', LoadFinished False] =
     Inr ([MutexLock, GotResponse 7 ''{}'', MutexUnlock], state_at_serve)"
    by (simp add: loadFinished_def responseCallback_def state_at_serve_def
        main_until_serve_def static_initialization_def)
  from r pageLoaded_is_last_load_result
    [of state_at_serve "[LoadFinished True, OnResponse 7 ''{}'', LoadFinished False]"
        "[MutexLock, GotResponse 7 ''{}'', MutexUnlock]" state_at_serve]
  show ?thesis by (simp del: run.simps)
qed

section \<open>Messages from a secondary instance\<close>

text \<open>
  C9, as the claim states it, fails: the handler of \<^verbatim>\<open>receivedMessage\<close>, which is the one
  that receives the forwarded arguments, does not raise the view.
\<close>

theorem receivedMessage_does_not_raise:
  "ViewRaise \<notin> set (performed (receivedMessage state_running 1 ''BitBoxApp aopp:xyz''))"
  by (simp add: receivedMessage_def performed_def)

text \<open>
  C9, amended. The handler of \<^verbatim>\<open>receivedMessage\<close> writes the forwarded arguments to the
  debug log and does nothing else. The view is raised by the handler of
  \<^verbatim>\<open>instanceStarted\<close>, the signal emitted when a secondary instance starts, whatever that
  instance forwards.
\<close>

theorem raise_on_instanceStarted:
  "receivedMessage s instanceId message =
     Inr ([QDebug [''Received args from secondary instance:'', message]], s) \<and>
   (view s = Valid \<longrightarrow> instanceStarted s = Inr ([ViewRaise], s))"
  by (simp add: receivedMessage_def instanceStarted_def)

theorem raise_on_instanceStarted_witness:
  "view state_running = Valid \<and>
   instanceStarted state_running = Inr ([ViewRaise], state_running) \<and>
   run state_running [InstanceStarted, ReceivedMessage 1 ''BitBoxApp aopp:xyz''] =
     Inr ([ViewRaise,
           QDebug [''Received args from secondary instance:'', ''BitBoxApp aopp:xyz'']],
          state_running)"
  using raise_on_instanceStarted [of state_running 1 "''BitBoxApp aopp:xyz''"]
  by (simp add: running_facts)

end
